theory Spec2Isabelle
  imports Main "HOL-Library.AList"
begin

section \<open>Values, identifiers, errors\<close>

text \<open>
  The adapter (\<^verbatim>\<open>src/lib/ApaleoConnectAdapter.ts\<close>) is a class whose methods each issue
  one GET through the request driver and convert the body. The model is a shallow
  embedding: every method is a function of its collaborators (the driver's \<open>http.get\<close>,
  the mapper imported from \<^verbatim>\<open>./utils\<close>) and of its arguments, and returns the list of
  requests it issued together with either the error it raised or its result.
\<close>

text \<open>Free-form values of a query-parameter bag.\<close>

datatype jsval = JNull | JBool bool | JNum int | JStr string | JArr "jsval list"

text \<open>
  \<^verbatim>\<open>Models.ID\<close>, \<^verbatim>\<open>string | number\<close> in \<open>getRoomsTypes\<close>. \<open>IdNum n\<close> stands for an
  integer-valued number below \<open>10^21\<close> in magnitude, which a template literal prints in
  plain decimal.
\<close>

datatype ID = IdStr string | IdNum int

fun id_val :: "ID \<Rightarrow> jsval" where
  "id_val (IdStr s) = JStr s"
| "id_val (IdNum n) = JNum n"

fun string_of_nat :: "nat \<Rightarrow> string" where
  "string_of_nat n =
     (if n < 10 then [''0123456789'' ! n]
      else string_of_nat (n div 10) @ [''0123456789'' ! (n mod 10)])"

declare string_of_nat.simps [simp del]

definition string_of_int :: "int \<Rightarrow> string" where
  "string_of_int i =
     (if i < 0 then CHR ''-'' # string_of_nat (nat (- i)) else string_of_nat (nat i))"

text \<open>The text a template literal \<^verbatim>\<open>${id}\<close> inserts.\<close>

fun id_to_string :: "ID \<Rightarrow> string" where
  "id_to_string (IdStr s) = s"
| "id_to_string (IdNum n) = string_of_int n"

text \<open>
  \<open>Error m\<close> is \<^verbatim>\<open>new Error(m)\<close>; \<open>TypeError\<close> is what reading a property of
  \<^verbatim>\<open>undefined\<close> raises; \<open>HttpError status body\<close> is a rejection of the driver's
  \<open>http.get\<close>.
\<close>

datatype error = Error string | TypeError | HttpError nat string

section \<open>Construction\<close>

text \<open>
  \<^verbatim>\<open>ApaleoConnectAdaptorOptions\<close>. \<open>None\<close> is \<^verbatim>\<open>null\<close> (or an omitted field, which
  the destructuring defaults turn into \<^verbatim>\<open>null\<close> for \<open>client_id\<close> and
  \<open>client_secret\<close>).
\<close>

record 'ts ApaleoConnectAdaptorOptions =
  refresh_token :: string
  access_token :: "string option"
  client_id :: "string option"
  client_secret :: "string option"
  redirect_uri :: "string option"
  tokenStore :: "'ts option"

text \<open>Truthiness of a \<^verbatim>\<open>string | null\<close>: \<^verbatim>\<open>null\<close> and the empty string are falsy.\<close>

fun truthy :: "string option \<Rightarrow> bool" where
  "truthy None = False"
| "truthy (Some s) = (s \<noteq> [])"

text \<open>The argument of \<^verbatim>\<open>ApaleoGenerateAccessToken\<close>.\<close>

record token_request =
  tr_client_secret :: "string option"
  tr_client_id :: "string option"
  tr_redirect_uri :: "string option"
  refresh :: string

text \<open>
  The closure handed to the driver as \<open>generteAccessToken\<close>. \<^verbatim>\<open>ApaleoGenerateAccessToken\<close>
  (\<^verbatim>\<open>./Authorization\<close>) is a parameter: it rejects (\<open>Inl\<close>) or resolves to token data or
  to a falsy value (\<open>Inr None\<close>). The closure ignores its \<open>token\<close> argument and sends the
  refresh token captured at construction.
\<close>

definition generteAccessToken ::
  "(token_request \<Rightarrow> error + 'd option) \<Rightarrow> 'ts ApaleoConnectAdaptorOptions \<Rightarrow> string \<Rightarrow> error + 'd" where
  "generteAccessToken ApaleoGenerateAccessToken options token =
     (case ApaleoGenerateAccessToken
             \<lparr> tr_client_secret = client_secret options,
               tr_client_id = client_id options,
               tr_redirect_uri = redirect_uri options,
               refresh = refresh_token options \<rparr> of
        Inl e \<Rightarrow> Inl e
      | Inr None \<Rightarrow>
          Inl (Error ''ApaleoConnectAdaptor:generteAccessToken - Cant create access token'')
      | Inr (Some d) \<Rightarrow> Inr d)"

text \<open>The options of the \<^verbatim>\<open>RestRequestDriver\<close> constructor (\<^verbatim>\<open>super(...)\<close>).\<close>

record 'd driver_options =
  refreshToken :: string
  accessToken :: string
  baseUrl :: string
  generte :: "string \<Rightarrow> error + 'd"

text \<open>
  The constructor. The base class is not part of this repository, so its constructor
  \<open>RestRequestDriver\<close> and its method \<open>setTokenStore\<close> are parameters; each returns the
  network events \<open>'ev\<close> it causes and the driver object. \<open>API_BASE_URL\<close> is
  \<^verbatim>\<open>Config.API_BASE_URL\<close>. The result is the events of the whole construction and the
  error thrown or the adapter built. \<^verbatim>\<open>access_token || ''\<close> is the token itself when
  there is one (an empty token is replaced by the empty string).
\<close>

definition ApaleoConnectAdaptor ::
  "string \<Rightarrow> (token_request \<Rightarrow> error + 'd option) \<Rightarrow>
   ('d driver_options \<Rightarrow> 'ev list \<times> 'drv) \<Rightarrow> ('ts \<Rightarrow> 'drv \<Rightarrow> 'ev list \<times> 'drv) \<Rightarrow>
   'ts ApaleoConnectAdaptorOptions \<Rightarrow> 'ev list \<times> (error + 'drv)" where
  "ApaleoConnectAdaptor API_BASE_URL ApaleoGenerateAccessToken RestRequestDriver setTokenStore options =
     (if \<not> truthy (client_id options) \<or> \<not> truthy (client_secret options)
      then ([], Inl (Error ''Apaleo client credentials missing''))
      else
        (case RestRequestDriver
                \<lparr> refreshToken = refresh_token options,
                  accessToken = (case access_token options of None \<Rightarrow> [] | Some t \<Rightarrow> t),
                  baseUrl = API_BASE_URL,
                  generte = generteAccessToken ApaleoGenerateAccessToken options \<rparr> of
           (evs, this) \<Rightarrow>
             (case tokenStore options of
                None \<Rightarrow> (evs, Inr this)
              | Some store \<Rightarrow>
                  (case setTokenStore store this of
                     (evs', this') \<Rightarrow> (evs @ evs', Inr this')))))"

section \<open>Requests\<close>

text \<open>
  A query-parameter bag is an object: its keys in insertion order. \<open>AList.update k v\<close> is
  the object-literal entry \<^verbatim>\<open>k: v\<close> written after a spread: it replaces the value of an
  existing key in place and appends a new key.
\<close>

type_synonym query = "(string \<times> jsval) list"

text \<open>
  A call \<^verbatim>\<open>this.http.get(path, { params })\<close>. \<open>config_params = None\<close> when the call
  passes no configuration or \<^verbatim>\<open>params\<close> is \<^verbatim>\<open>undefined\<close>.
\<close>

record request =
  path :: string
  config_params :: "query option"

text \<open>An omitted \<open>params\<close> argument is \<open>None\<close>; the default \<^verbatim>\<open>params = {}\<close> fills it in.\<close>

fun default_bag :: "query option \<Rightarrow> query" where
  "default_bag None = []"
| "default_bag (Some p) = p"

text \<open>The spread \<^verbatim>\<open>...params\<close>: spreading \<^verbatim>\<open>undefined\<close> contributes no entry.\<close>

fun spread :: "query option \<Rightarrow> query" where
  "spread None = []"
| "spread (Some p) = p"

text \<open>
  \<^verbatim>\<open>const { data } = await this.http.get<T>(path, config)\<close>, followed by the rest of the
  method \<open>k\<close>. \<open>http\<close> is the driver's GET: it rejects with an error or resolves to the
  parsed body. One request is issued either way.
\<close>

definition await_get ::
  "(request \<Rightarrow> error + 'a) \<Rightarrow> request \<Rightarrow> ('a \<Rightarrow> 'b) \<Rightarrow> request list \<times> (error + 'b)" where
  "await_get http req k =
     ([req], case http req of Inl e \<Rightarrow> Inl e | Inr data \<Rightarrow> Inr (k data))"

section \<open>Vendor payloads and canonical results\<close>

text \<open>
  The list payloads of \<^verbatim>\<open>./ApaleoInterfaces\<close>: a reported total and one page of
  elements. The element types are parameters.
\<close>

record 'v IApaleoPropertyList =
  count :: int
  properties :: "'v list"

record 'v IApaleoUnitGroupList =
  count :: int
  unitGroups :: "'v list"

record 'v IApaleoRatePlanList =
  count :: int
  ratePlans :: "'v list"

record 'v IApaleoRateList =
  count :: int
  rates :: "'v list"

record 'v IApaleoCancellationPolicyList =
  count :: int
  cancellationPolicies :: "'v list"

record 'v IApaleoNoShowPolicyList =
  count :: int
  noShowPolicies :: "'v list"

record 'v IApaleoAgeCategoryList =
  count :: int
  ageCategories :: "'v list"

record 'v IApaleoServiceList =
  count :: int
  services :: "'v list"

text \<open>An optional field of a payload: missing, \<^verbatim>\<open>null\<close>, or holding a value.\<close>

datatype 'a optional = Undefined | Null | Value 'a

record IApaleoPromoCode =
  code :: string
  relatedRateplanIds :: "string list optional"

record IApaleoPromoCodeList =
  count :: int
  promoCodes :: "IApaleoPromoCode list"

record IConnected_PromoCode =
  code :: string
  related_rateplan_ids :: "string list"

text \<open>\<^verbatim>\<open>IConnected_ListOf<T>\<close>.\<close>

record 'c IConnected_ListOf =
  data :: "'c list"
  count :: int

text \<open>
  What \<open>getRatesByRatePlan\<close> reads of its rate plan: \<^verbatim>\<open>id\<close> and \<^verbatim>\<open>rates_range\<close>
  with its \<^verbatim>\<open>from\<close> and \<^verbatim>\<open>to\<close>. \<open>rates_range = None\<close> is a rate plan without the
  field.
\<close>

record RatesRange =
  range_from :: jsval
  range_to :: jsval

record IConnected_RatePlanItem =
  rp_id :: ID
  rates_range :: "RatesRange option"

section \<open>Resource methods\<close>

text \<open>
  Each method takes the mapper it imports from \<^verbatim>\<open>./utils\<close> (a pure function, taken as
  a parameter), the driver's GET and its own arguments, in the order of the source.
\<close>

definition getAccount :: "(request \<Rightarrow> error + 'a) \<Rightarrow> request list \<times> (error + 'a)" where
  "getAccount http =
     await_get http \<lparr> path = ''/account/v1/accounts/current'', config_params = None \<rparr>
       (\<lambda>res_data. res_data)"

definition getHotels ::
  "('v \<Rightarrow> 'c) \<Rightarrow> (request \<Rightarrow> error + 'v IApaleoPropertyList) \<Rightarrow> query option \<Rightarrow>
   request list \<times> (error + 'c IConnected_ListOf)" where
  "getHotels toConnectedHotel http params =
     await_get http
       \<lparr> path = ''/inventory/v1/properties'', config_params = Some (default_bag params) \<rparr>
       (\<lambda>res_data.
          \<lparr> data = map (\<lambda>p. toConnectedHotel p) (properties res_data),
            count = IApaleoPropertyList.count res_data \<rparr>)"

definition getHotelById ::
  "('v \<Rightarrow> 'c) \<Rightarrow> (request \<Rightarrow> error + 'v) \<Rightarrow> ID \<Rightarrow> query option \<Rightarrow>
   request list \<times> (error + 'c)" where
  "getHotelById toConnectedHotel http ident params =
     await_get http
       \<lparr> path = ''/inventory/v1/properties/'' @ id_to_string ident,
         config_params = Some (default_bag params) \<rparr>
       (\<lambda>data. toConnectedHotel data)"

definition getRoomsTypes ::
  "('v \<Rightarrow> 'c) \<Rightarrow> (request \<Rightarrow> error + 'v IApaleoUnitGroupList) \<Rightarrow> ID \<Rightarrow> query option \<Rightarrow>
   request list \<times> (error + 'c IConnected_ListOf)" where
  "getRoomsTypes toConnectedRoomType http hotelId params =
     await_get http
       \<lparr> path = ''/inventory/v1/unit-groups'',
         config_params =
           Some (AList.update ''propertyId'' (id_val hotelId) (spread (Some (default_bag params)))) \<rparr>
       (\<lambda>data.
          \<lparr> data = map (\<lambda>ug. toConnectedRoomType ug) (unitGroups data),
            count = IApaleoUnitGroupList.count data \<rparr>)"

definition getRoomTypeById ::
  "('v \<Rightarrow> 'c) \<Rightarrow> (request \<Rightarrow> error + 'v) \<Rightarrow> ID \<Rightarrow> request list \<times> (error + 'c)" where
  "getRoomTypeById toConnectedRoomType http roomTypeId =
     await_get http
       \<lparr> path = ''/inventory/v1/unit-groups/'' @ id_to_string roomTypeId,
         config_params = None \<rparr>
       (\<lambda>res_data. toConnectedRoomType res_data)"

definition getRatePlansByHotelId ::
  "('v \<Rightarrow> 'c) \<Rightarrow> (request \<Rightarrow> error + 'v IApaleoRatePlanList) \<Rightarrow> ID \<Rightarrow> query option \<Rightarrow>
   request list \<times> (error + 'c IConnected_ListOf)" where
  "getRatePlansByHotelId toConnectedRatePaln http hotelId params =
     await_get http
       \<lparr> path = ''/rateplan/v1/rate-plans'',
         config_params =
           Some (AList.update ''propertyId'' (id_val hotelId) (spread (Some (default_bag params)))) \<rparr>
       (\<lambda>data.
          \<lparr> data = map (\<lambda>rpi. toConnectedRatePaln rpi) (ratePlans data),
            count = IApaleoRatePlanList.count data \<rparr>)"

text \<open>\<open>params\<close> has no default here: an omitted bag is handed on as \<^verbatim>\<open>undefined\<close>.\<close>

definition getRatePlanById ::
  "('v \<Rightarrow> 'c) \<Rightarrow> (request \<Rightarrow> error + 'v) \<Rightarrow> ID \<Rightarrow> query option \<Rightarrow>
   request list \<times> (error + 'c)" where
  "getRatePlanById toConnectedRatePaln http ratePlanId params =
     await_get http
       \<lparr> path = ''/rateplan/v1/rate-plans/'' @ id_to_string ratePlanId,
         config_params = params \<rparr>
       (\<lambda>data. toConnectedRatePaln data)"

text \<open>
  The arguments of \<^verbatim>\<open>this.http.get\<close> are evaluated before the call. Reading
  \<^verbatim>\<open>ratePlan.rates_range.from\<close> of a rate plan without \<^verbatim>\<open>rates_range\<close> raises a
  TypeError there, so the method rejects and no request is issued.
\<close>

definition getRatesByRatePlan ::
  "('v \<Rightarrow> 'c) \<Rightarrow> (request \<Rightarrow> error + 'v IApaleoRateList) \<Rightarrow> IConnected_RatePlanItem \<Rightarrow>
   query option \<Rightarrow> request list \<times> (error + 'c IConnected_ListOf)" where
  "getRatesByRatePlan convertToConnectedRate http ratePlan params =
     (case rates_range ratePlan of
        None \<Rightarrow> ([], Inl TypeError)
      | Some rr \<Rightarrow>
          await_get http
            \<lparr> path = ''/rateplan/v1/rate-plans/'' @ id_to_string (rp_id ratePlan) @ ''/rates'',
              config_params =
                Some (AList.update ''to'' (range_to rr)
                       (AList.update ''from'' (range_from rr)
                          (spread (Some (default_bag params))))) \<rparr>
            (\<lambda>data.
               \<lparr> data = map (\<lambda>r. convertToConnectedRate r) (rates data),
                 count = IApaleoRateList.count data \<rparr>))"

definition getCancellationPolicies ::
  "('v \<Rightarrow> 'c) \<Rightarrow> (request \<Rightarrow> error + 'v IApaleoCancellationPolicyList) \<Rightarrow> ID \<Rightarrow>
   query option \<Rightarrow> request list \<times> (error + 'c IConnected_ListOf)" where
  "getCancellationPolicies toConnectedCancellationPolicy http hotelId params =
     await_get http
       \<lparr> path = ''/rateplan/v1/cancellation-policies'',
         config_params =
           Some (AList.update ''propertyId'' (id_val hotelId) (spread (Some (default_bag params)))) \<rparr>
       (\<lambda>data.
          \<lparr> data = map (\<lambda>cp. toConnectedCancellationPolicy cp) (cancellationPolicies data),
            count = IApaleoCancellationPolicyList.count data \<rparr>)"

text \<open>The \<open>params\<close> argument is declared and not used: the call passes the path alone.\<close>

definition getCancellationPolicyById ::
  "('v \<Rightarrow> 'c) \<Rightarrow> (request \<Rightarrow> error + 'v) \<Rightarrow> ID \<Rightarrow> query option \<Rightarrow>
   request list \<times> (error + 'c)" where
  "getCancellationPolicyById toConnectedCancellationPolicy http cancellationPolicyId params =
     await_get http
       \<lparr> path = ''/rateplan/v1/cancellation-policies/'' @ id_to_string cancellationPolicyId,
         config_params = None \<rparr>
       (\<lambda>data. toConnectedCancellationPolicy data)"

definition getNoShowPolicies ::
  "('v \<Rightarrow> 'c) \<Rightarrow> (request \<Rightarrow> error + 'v IApaleoNoShowPolicyList) \<Rightarrow> ID \<Rightarrow>
   query option \<Rightarrow> request list \<times> (error + 'c IConnected_ListOf)" where
  "getNoShowPolicies toConnectedNoShowPolicy http propertyId params =
     await_get http
       \<lparr> path = ''/rateplan/v1/no-show-policies'',
         config_params =
           Some (AList.update ''propertyId'' (id_val propertyId) (spread (Some (default_bag params)))) \<rparr>
       (\<lambda>data.
          \<lparr> data = map (\<lambda>nsp. toConnectedNoShowPolicy nsp) (noShowPolicies data),
            count = IApaleoNoShowPolicyList.count data \<rparr>)"

definition getNoShowPolicyById ::
  "('v \<Rightarrow> 'c) \<Rightarrow> (request \<Rightarrow> error + 'v) \<Rightarrow> ID \<Rightarrow> query option \<Rightarrow>
   request list \<times> (error + 'c)" where
  "getNoShowPolicyById toConnectedNoShowPolicy http noShowPolicyId params =
     await_get http
       \<lparr> path = ''/rateplan/v1/no-show-policies/'' @ id_to_string noShowPolicyId,
         config_params = Some (default_bag params) \<rparr>
       (\<lambda>data. toConnectedNoShowPolicy data)"

text \<open>No default for \<open>params\<close> in the two age-category methods: the spread covers it.\<close>

definition getAgeCategories ::
  "('v \<Rightarrow> 'c) \<Rightarrow> (request \<Rightarrow> error + 'v IApaleoAgeCategoryList) \<Rightarrow> ID \<Rightarrow>
   query option \<Rightarrow> request list \<times> (error + 'c IConnected_ListOf)" where
  "getAgeCategories toConnectedAgeCategory http hotelId params =
     await_get http
       \<lparr> path = ''/settings/v1/age-categories'',
         config_params = Some (AList.update ''propertyId'' (id_val hotelId) (spread params)) \<rparr>
       (\<lambda>data.
          \<lparr> data = map (\<lambda>a. toConnectedAgeCategory a) (ageCategories data),
            count = IApaleoAgeCategoryList.count data \<rparr>)"

definition getAgeCategoryById ::
  "('v \<Rightarrow> 'c) \<Rightarrow> (request \<Rightarrow> error + 'v) \<Rightarrow> ID \<Rightarrow> query option \<Rightarrow>
   request list \<times> (error + 'c)" where
  "getAgeCategoryById toConnectedAgeCategory http ageCategoryId params =
     await_get http
       \<lparr> path = ''/settings/v1/age-categories/'' @ id_to_string ageCategoryId,
         config_params = Some (spread params) \<rparr>
       (\<lambda>data. toConnectedAgeCategory data)"

definition getServices ::
  "('v \<Rightarrow> 'c) \<Rightarrow> (request \<Rightarrow> error + 'v IApaleoServiceList) \<Rightarrow> ID \<Rightarrow> query option \<Rightarrow>
   request list \<times> (error + 'c IConnected_ListOf)" where
  "getServices toConnectedService http hotelId params =
     await_get http
       \<lparr> path = ''/rateplan/v1/services'',
         config_params =
           Some (AList.update ''propertyId'' (id_val hotelId) (spread (Some (default_bag params)))) \<rparr>
       (\<lambda>data.
          \<lparr> data = map (\<lambda>s. toConnectedService s) (services data),
            count = IApaleoServiceList.count data \<rparr>)"

text \<open>The \<open>params\<close> argument is declared and not used: the call passes the path alone.\<close>

definition getServiceById ::
  "('v \<Rightarrow> 'c) \<Rightarrow> (request \<Rightarrow> error + 'v) \<Rightarrow> ID \<Rightarrow> query option \<Rightarrow>
   request list \<times> (error + 'c)" where
  "getServiceById toConnectedService http serviceId params =
     await_get http
       \<lparr> path = ''/rateplan/v1/services/'' @ id_to_string serviceId, config_params = None \<rparr>
       (\<lambda>data. toConnectedService data)"

text \<open>
  The promo-code entry is built in place. \<^verbatim>\<open>pc.relatedRateplanIds ? ... : []\<close>: an
  array, empty or not, is truthy; \<^verbatim>\<open>null\<close> and a missing field are falsy.
\<close>

definition toPromoCode :: "IApaleoPromoCode \<Rightarrow> IConnected_PromoCode" where
  "toPromoCode pc =
     \<lparr> code = IApaleoPromoCode.code pc,
       related_rateplan_ids =
         (case relatedRateplanIds pc of
            Value ids \<Rightarrow> ids
          | Null \<Rightarrow> []
          | Undefined \<Rightarrow> []) \<rparr>"

text \<open>The query of \<open>getPromoCodes\<close> is the object \<^verbatim>\<open>{ propertyId: hotelId }\<close> alone.\<close>

definition getPromoCodes ::
  "(request \<Rightarrow> error + IApaleoPromoCodeList) \<Rightarrow> ID \<Rightarrow> query option \<Rightarrow>
   request list \<times> (error + IConnected_PromoCode IConnected_ListOf)" where
  "getPromoCodes http hotelId params =
     await_get http
       \<lparr> path = ''/rateplan/v1/promo-codes/codes'',
         config_params = Some [(''propertyId'', id_val hotelId)] \<rparr>
       (\<lambda>data.
          \<lparr> data = map (\<lambda>pc. toPromoCode pc) (promoCodes data),
            count = IApaleoPromoCodeList.count data \<rparr>)"

section \<open>Observations and test doubles\<close>

text \<open>The value a request carries for a query key, if any.\<close>

definition sent_param :: "string \<Rightarrow> request \<Rightarrow> jsval option" where
  "sent_param k req = (case config_params req of None \<Rightarrow> None | Some q \<Rightarrow> map_of q k)"

text \<open>A driver whose GET resolves to the same body whatever the request.\<close>

definition always :: "'a \<Rightarrow> request \<Rightarrow> error + 'a" where
  "always body req = Inr body"

text \<open>A vendor page of one hotel that reports a total of zero.\<close>

definition one_hotel_total_zero :: "request \<Rightarrow> error + unit IApaleoPropertyList" where
  "one_hotel_total_zero req = Inr \<lparr> IApaleoPropertyList.count = 0, properties = [()] \<rparr>"

text \<open>Promo codes with the related rate plans present, \<^verbatim>\<open>null\<close> and missing.\<close>

definition three_promo_codes :: IApaleoPromoCodeList where
  "three_promo_codes =
     \<lparr> IApaleoPromoCodeList.count = 3,
       promoCodes =
         [\<lparr> IApaleoPromoCode.code = ''SUMMER'', relatedRateplanIds = Value [''RP-1'', ''RP-2''] \<rparr>,
          \<lparr> IApaleoPromoCode.code = ''WINTER'', relatedRateplanIds = Null \<rparr>,
          \<lparr> IApaleoPromoCode.code = ''SPRING'', relatedRateplanIds = Undefined \<rparr>] \<rparr>"

text \<open>An account body as the vendor sends it, as the list of its fields.\<close>

definition vendor_account :: query where
  "vendor_account = [(''code'', JStr ''ACME''), (''name'', JStr ''Acme Hotels'')]"

section \<open>Basic facts\<close>

lemma await_get_requests: "fst (await_get http req k) = [req]"
  by (simp add: await_get_def)

lemma await_get_resolves: "http req = Inr d \<Longrightarrow> snd (await_get http req k) = Inr (k d)"
  by (simp add: await_get_def)

lemma await_get_rejects: "http req = Inl e \<Longrightarrow> snd (await_get http req k) = Inl e"
  by (simp add: await_get_def)

lemma map_of_update_same: "map_of (AList.update k v q) k = Some v"
  by (simp add: update_conv')

lemma map_of_update_other: "k' \<noteq> k \<Longrightarrow> map_of (AList.update k v q) k' = map_of q k'"
  by (simp add: update_conv')

lemma await_get_result:
  "snd (await_get http req k) = map_sum (\<lambda>e. e) k (http req)"
  by (simp add: await_get_def split: sum.split)

lemma map_sum_unchanged: "map_sum (\<lambda>e. e) (\<lambda>body. body) s = s"
  by (cases s) simp_all

lemma truthy_iff: "truthy s \<longleftrightarrow> s \<noteq> None \<and> s \<noteq> Some []"
  by (cases s) auto

section \<open>Construction fails fast\<close>

text \<open>
  C1. When \<open>client_id\<close> or \<open>client_secret\<close> is \<^verbatim>\<open>null\<close> or the empty string, the
  constructor throws \<^verbatim>\<open>Error('Apaleo client credentials missing')\<close> and the construction
  has caused no network event: the base-class constructor, the token store and the token
  exchange are never reached, whatever they would do.
\<close>

theorem constructor_rejects_missing_credentials:
  "client_id options = None \<or> client_id options = Some [] \<or>
   client_secret options = None \<or> client_secret options = Some [] \<Longrightarrow>
   ApaleoConnectAdaptor API_BASE_URL ApaleoGenerateAccessToken RestRequestDriver setTokenStore options
     = ([], Inl (Error ''Apaleo client credentials missing''))"
  by (auto simp: ApaleoConnectAdaptor_def)

theorem constructor_rejects_missing_credentials_witness:
  "client_id \<lparr> refresh_token = ''rt-1'', access_token = None, client_id = None,
       client_secret = Some ''secret'', redirect_uri = None, tokenStore = Some () \<rparr> = None \<and>
   ApaleoConnectAdaptor ''https://api.apaleo.com'' (\<lambda>r. Inr (Some ''at-1''))
       (\<lambda>opts. ([''connect''], ())) (\<lambda>store drv. ([''load''], drv))
       \<lparr> refresh_token = ''rt-1'', access_token = None, client_id = None,
         client_secret = Some ''secret'', redirect_uri = None, tokenStore = Some () \<rparr>
     = ([], Inl (Error ''Apaleo client credentials missing''))"
  using constructor_rejects_missing_credentials
    [of "\<lparr> refresh_token = ''rt-1'', access_token = None, client_id = None,
         client_secret = Some ''secret'', redirect_uri = None, tokenStore = Some () \<rparr>"
        "''https://api.apaleo.com''" "\<lambda>r. Inr (Some ''at-1'')"
        "\<lambda>opts. ([''connect''], ())" "\<lambda>store drv. ([''load''], drv)"]
  by simp

text \<open>With both credentials present the constructor reaches the base class.\<close>

lemma constructor_accepts_credentials:
  "truthy (client_id options) \<Longrightarrow> truthy (client_secret options) \<Longrightarrow>
   \<exists>evs this.
     ApaleoConnectAdaptor API_BASE_URL ApaleoGenerateAccessToken RestRequestDriver setTokenStore options
       = (evs, Inr this)"
  by (auto simp: ApaleoConnectAdaptor_def split: prod.splits option.splits)

section \<open>Rate plans of a hotel\<close>

text \<open>
  C3. When the vendor answers the rate-plan list request with a payload, the result of
  \<open>getRatePlansByHotelId\<close> carries the payload's \<open>count\<close> as it is and, as \<open>data\<close>, the
  payload's \<open>ratePlans\<close> mapped one by one by the rate-plan mapper, in the same order.
  The payload \<^verbatim>\<open>{count: 5, ratePlans: [A, B]}\<close> gives
  \<^verbatim>\<open>{count: 5, data: [canonicalA, canonicalB]}\<close>.
\<close>

theorem getRatePlansByHotelId_count_and_order:
  "http \<lparr> path = ''/rateplan/v1/rate-plans'',
          config_params = Some (AList.update ''propertyId'' (id_val hotelId) (default_bag params)) \<rparr>
     = Inr payload \<Longrightarrow>
   snd (getRatePlansByHotelId toConnectedRatePaln http hotelId params)
     = Inr \<lparr> data = map toConnectedRatePaln (ratePlans payload),
             count = IApaleoRatePlanList.count payload \<rparr>"
  by (simp add: getRatePlansByHotelId_def await_get_def)

theorem getRatePlansByHotelId_count_and_order_witness:
  "snd (getRatePlansByHotelId (\<lambda>plan. ''canonical'' @ plan)
          (always \<lparr> IApaleoRatePlanList.count = 5, ratePlans = [''A'', ''B''] \<rparr>)
          (IdStr ''HOTEL-1'') (Some []))
     = Inr \<lparr> data = [''canonicalA'', ''canonicalB''], count = 5 \<rparr>"
  using getRatePlansByHotelId_count_and_order
    [of "always \<lparr> IApaleoRatePlanList.count = 5, ratePlans = [''A'', ''B''] \<rparr>"
        "IdStr ''HOTEL-1''" "Some []"
        "\<lparr> IApaleoRatePlanList.count = 5, ratePlans = [''A'', ''B''] \<rparr>"
        "\<lambda>plan. ''canonical'' @ plan"]
  by (simp add: always_def)

section \<open>Reported totals of the list methods\<close>

text \<open>
  C4, as stated: every list result has \<open>data.length \<le> count\<close>. The methods copy the
  vendor's \<open>count\<close> and map the vendor's page without comparing the two, so a page of one
  hotel reported with a total of zero comes back as one canonical hotel with count zero.
\<close>

theorem page_within_count_counterexample:
  "snd (getHotels id one_hotel_total_zero None) = Inr \<lparr> data = [()], count = 0 \<rparr> \<and>
   \<not> int (length (data (projr (snd (getHotels id one_hotel_total_zero None)))))
       \<le> count (projr (snd (getHotels id one_hotel_total_zero None)))"
  by (simp add: getHotels_def await_get_def one_hotel_total_zero_def)

text \<open>
  C4, amended. For each of the nine list methods, when the vendor answers with a payload,
  the result's \<open>count\<close> is the payload's \<open>count\<close> as it is and \<open>data\<close> has as many
  elements as the payload's page. So \<open>data.length \<le> count\<close> holds whenever the vendor's
  page is no longer than the total the vendor reports.
\<close>

theorem list_results_report_vendor_count:
  "(\<forall>d. http_hotels \<lparr> path = ''/inventory/v1/properties'',
                       config_params = Some (default_bag params) \<rparr> = Inr d \<longrightarrow>
      (\<exists>r. snd (getHotels toConnectedHotel http_hotels params) = Inr r \<and>
           count r = IApaleoPropertyList.count d \<and>
           length (data r) = length (properties d))) \<and>
   (\<forall>d. http_rooms \<lparr> path = ''/inventory/v1/unit-groups'',
                      config_params = Some (AList.update ''propertyId'' (id_val hotelId)
                                              (default_bag params)) \<rparr> = Inr d \<longrightarrow>
      (\<exists>r. snd (getRoomsTypes toConnectedRoomType http_rooms hotelId params) = Inr r \<and>
           count r = IApaleoUnitGroupList.count d \<and>
           length (data r) = length (unitGroups d))) \<and>
   (\<forall>d. http_plans \<lparr> path = ''/rateplan/v1/rate-plans'',
                      config_params = Some (AList.update ''propertyId'' (id_val hotelId)
                                              (default_bag params)) \<rparr> = Inr d \<longrightarrow>
      (\<exists>r. snd (getRatePlansByHotelId toConnectedRatePaln http_plans hotelId params) = Inr r \<and>
           count r = IApaleoRatePlanList.count d \<and>
           length (data r) = length (ratePlans d))) \<and>
   (\<forall>rr d. rates_range ratePlan = Some rr \<longrightarrow>
      http_rates \<lparr> path = ''/rateplan/v1/rate-plans/'' @ id_to_string (rp_id ratePlan) @ ''/rates'',
                   config_params = Some (AList.update ''to'' (range_to rr)
                                           (AList.update ''from'' (range_from rr)
                                              (default_bag params))) \<rparr> = Inr d \<longrightarrow>
      (\<exists>r. snd (getRatesByRatePlan convertToConnectedRate http_rates ratePlan params) = Inr r \<and>
           count r = IApaleoRateList.count d \<and>
           length (data r) = length (rates d))) \<and>
   (\<forall>d. http_cancel \<lparr> path = ''/rateplan/v1/cancellation-policies'',
                       config_params = Some (AList.update ''propertyId'' (id_val hotelId)
                                               (default_bag params)) \<rparr> = Inr d \<longrightarrow>
      (\<exists>r. snd (getCancellationPolicies toConnectedCancellationPolicy http_cancel hotelId params)
             = Inr r \<and>
           count r = IApaleoCancellationPolicyList.count d \<and>
           length (data r) = length (cancellationPolicies d))) \<and>
   (\<forall>d. http_noshow \<lparr> path = ''/rateplan/v1/no-show-policies'',
                       config_params = Some (AList.update ''propertyId'' (id_val hotelId)
                                               (default_bag params)) \<rparr> = Inr d \<longrightarrow>
      (\<exists>r. snd (getNoShowPolicies toConnectedNoShowPolicy http_noshow hotelId params) = Inr r \<and>
           count r = IApaleoNoShowPolicyList.count d \<and>
           length (data r) = length (noShowPolicies d))) \<and>
   (\<forall>d. http_ages \<lparr> path = ''/settings/v1/age-categories'',
                     config_params = Some (AList.update ''propertyId'' (id_val hotelId)
                                             (spread params)) \<rparr> = Inr d \<longrightarrow>
      (\<exists>r. snd (getAgeCategories toConnectedAgeCategory http_ages hotelId params) = Inr r \<and>
           count r = IApaleoAgeCategoryList.count d \<and>
           length (data r) = length (ageCategories d))) \<and>
   (\<forall>d. http_services \<lparr> path = ''/rateplan/v1/services'',
                         config_params = Some (AList.update ''propertyId'' (id_val hotelId)
                                                 (default_bag params)) \<rparr> = Inr d \<longrightarrow>
      (\<exists>r. snd (getServices toConnectedService http_services hotelId params) = Inr r \<and>
           count r = IApaleoServiceList.count d \<and>
           length (data r) = length (services d))) \<and>
   (\<forall>d. http_promos \<lparr> path = ''/rateplan/v1/promo-codes/codes'',
                       config_params = Some [(''propertyId'', id_val hotelId)] \<rparr> = Inr d \<longrightarrow>
      (\<exists>r. snd (getPromoCodes http_promos hotelId params) = Inr r \<and>
           count r = IApaleoPromoCodeList.count d \<and>
           length (data r) = length (promoCodes d)))"
  by (simp add: getHotels_def getRoomsTypes_def getRatePlansByHotelId_def getRatesByRatePlan_def
      getCancellationPolicies_def getNoShowPolicies_def getAgeCategories_def getServices_def
      getPromoCodes_def await_get_def)

theorem list_results_report_vendor_count_witness:
  "(\<exists>r. snd (getHotels Suc (always \<lparr> IApaleoPropertyList.count = 5, properties = [1, 2] \<rparr>)
               (Some [])) = Inr r \<and> count r = 5 \<and> length (data r) = 2) \<and>
   (\<exists>r. snd (getRoomsTypes Suc (always \<lparr> IApaleoUnitGroupList.count = 5, unitGroups = [1, 2] \<rparr>)
               (IdStr ''HOTEL-1'') (Some [])) = Inr r \<and> count r = 5 \<and> length (data r) = 2) \<and>
   (\<exists>r. snd (getRatePlansByHotelId Suc
               (always \<lparr> IApaleoRatePlanList.count = 5, ratePlans = [1, 2] \<rparr>)
               (IdStr ''HOTEL-1'') (Some [])) = Inr r \<and> count r = 5 \<and> length (data r) = 2) \<and>
   (\<exists>r. snd (getRatesByRatePlan Suc (always \<lparr> IApaleoRateList.count = 5, rates = [1, 2] \<rparr>)
               \<lparr> rp_id = IdStr ''RP-1'',
                 rates_range = Some \<lparr> range_from = JStr ''2021-06-01'',
                                      range_to = JStr ''2021-06-30'' \<rparr> \<rparr>
               (Some [])) = Inr r \<and> count r = 5 \<and> length (data r) = 2) \<and>
   (\<exists>r. snd (getCancellationPolicies Suc
               (always \<lparr> IApaleoCancellationPolicyList.count = 5,
                         cancellationPolicies = [1, 2] \<rparr>)
               (IdStr ''HOTEL-1'') (Some [])) = Inr r \<and> count r = 5 \<and> length (data r) = 2) \<and>
   (\<exists>r. snd (getNoShowPolicies Suc
               (always \<lparr> IApaleoNoShowPolicyList.count = 5, noShowPolicies = [1, 2] \<rparr>)
               (IdStr ''HOTEL-1'') (Some [])) = Inr r \<and> count r = 5 \<and> length (data r) = 2) \<and>
   (\<exists>r. snd (getAgeCategories Suc
               (always \<lparr> IApaleoAgeCategoryList.count = 5, ageCategories = [1, 2] \<rparr>)
               (IdStr ''HOTEL-1'') (Some [])) = Inr r \<and> count r = 5 \<and> length (data r) = 2) \<and>
   (\<exists>r. snd (getServices Suc (always \<lparr> IApaleoServiceList.count = 5, services = [1, 2] \<rparr>)
               (IdStr ''HOTEL-1'') (Some [])) = Inr r \<and> count r = 5 \<and> length (data r) = 2) \<and>
   (\<exists>r. snd (getPromoCodes (always three_promo_codes) (IdStr ''HOTEL-1'') (Some [])) = Inr r \<and>
        count r = 3 \<and> length (data r) = 3)"
  using list_results_report_vendor_count
    [where http_hotels = "always \<lparr> IApaleoPropertyList.count = 5, properties = [1, 2] \<rparr>"
       and http_rooms = "always \<lparr> IApaleoUnitGroupList.count = 5, unitGroups = [1, 2] \<rparr>"
       and http_plans = "always \<lparr> IApaleoRatePlanList.count = 5, ratePlans = [1, 2] \<rparr>"
       and http_rates = "always \<lparr> IApaleoRateList.count = 5, rates = [1, 2] \<rparr>"
       and http_cancel = "always \<lparr> IApaleoCancellationPolicyList.count = 5,
                                  cancellationPolicies = [1, 2] \<rparr>"
       and http_noshow = "always \<lparr> IApaleoNoShowPolicyList.count = 5, noShowPolicies = [1, 2] \<rparr>"
       and http_ages = "always \<lparr> IApaleoAgeCategoryList.count = 5, ageCategories = [1, 2] \<rparr>"
       and http_services = "always \<lparr> IApaleoServiceList.count = 5, services = [1, 2] \<rparr>"
       and http_promos = "always three_promo_codes"
       and toConnectedHotel = Suc and toConnectedRoomType = Suc and toConnectedRatePaln = Suc
       and convertToConnectedRate = Suc and toConnectedCancellationPolicy = Suc
       and toConnectedNoShowPolicy = Suc and toConnectedAgeCategory = Suc
       and toConnectedService = Suc
       and hotelId = "IdStr ''HOTEL-1''" and params = "Some []"
       and ratePlan = "\<lparr> rp_id = IdStr ''RP-1'',
                         rates_range = Some \<lparr> range_from = JStr ''2021-06-01'',
                                              range_to = JStr ''2021-06-30'' \<rparr> \<rparr>"]
  by (simp add: always_def three_promo_codes_def numeral_2_eq_2 numeral_3_eq_3)

section \<open>Rates of a rate plan\<close>

text \<open>
  C5. A rate plan without \<open>rates_range\<close> makes \<open>getRatesByRatePlan\<close> fail with a
  TypeError and no request is issued. With a \<open>rates_range\<close>, the one request sent
  carries \<open>from\<close> and \<open>to\<close> of that range, whatever the caller's bag holds under these
  keys.
\<close>

theorem getRatesByRatePlan_range:
  "(rates_range ratePlan = None \<longrightarrow>
      getRatesByRatePlan convertToConnectedRate http ratePlan params = ([], Inl TypeError)) \<and>
   (\<forall>rr. rates_range ratePlan = Some rr \<longrightarrow>
      map (sent_param ''from'')
          (fst (getRatesByRatePlan convertToConnectedRate http ratePlan params))
        = [Some (range_from rr)] \<and>
      map (sent_param ''to'')
          (fst (getRatesByRatePlan convertToConnectedRate http ratePlan params))
        = [Some (range_to rr)])"
  by (simp add: getRatesByRatePlan_def await_get_def sent_param_def update_conv')

theorem getRatesByRatePlan_range_witness:
  "getRatesByRatePlan (\<lambda>r. r) (always \<lparr> IApaleoRateList.count = 1, rates = [()] \<rparr>)
      \<lparr> rp_id = IdStr ''RP-1'', rates_range = None \<rparr>
      (Some [(''from'', JStr ''2020-01-01'')])
     = ([], Inl TypeError) \<and>
   map (sent_param ''from'')
     (fst (getRatesByRatePlan (\<lambda>r. r) (always \<lparr> IApaleoRateList.count = 1, rates = [()] \<rparr>)
       \<lparr> rp_id = IdStr ''RP-1'',
         rates_range = Some \<lparr> range_from = JStr ''2021-06-01'', range_to = JStr ''2021-06-30'' \<rparr> \<rparr>
       (Some [(''from'', JStr ''2020-01-01'')])))
     = [Some (JStr ''2021-06-01'')] \<and>
   map (sent_param ''to'')
     (fst (getRatesByRatePlan (\<lambda>r. r) (always \<lparr> IApaleoRateList.count = 1, rates = [()] \<rparr>)
       \<lparr> rp_id = IdStr ''RP-1'',
         rates_range = Some \<lparr> range_from = JStr ''2021-06-01'', range_to = JStr ''2021-06-30'' \<rparr> \<rparr>
       (Some [(''from'', JStr ''2020-01-01'')])))
     = [Some (JStr ''2021-06-30'')]"
  using getRatesByRatePlan_range
    [of "\<lparr> rp_id = IdStr ''RP-1'', rates_range = None \<rparr>" "\<lambda>r. r"
        "always \<lparr> IApaleoRateList.count = 1, rates = [()] \<rparr>"
        "Some [(''from'', JStr ''2020-01-01'')]"]
    getRatesByRatePlan_range
    [of "\<lparr> rp_id = IdStr ''RP-1'',
         rates_range = Some \<lparr> range_from = JStr ''2021-06-01'', range_to = JStr ''2021-06-30'' \<rparr> \<rparr>"
        "\<lambda>r. r" "always \<lparr> IApaleoRateList.count = 1, rates = [()] \<rparr>"
        "Some [(''from'', JStr ''2020-01-01'')]"]
  by simp

section \<open>The caller's bag in the list methods\<close>

text \<open>
  C6. The claim is that \<open>getPromoCodes\<close> sends the entries of the caller's bag together
  with \<open>propertyId\<close>. Called with the bag \<^verbatim>\<open>{pageSize: 10}\<close> for hotel \<open>HOTEL-1\<close>, it
  sends \<open>propertyId\<close> alone and no \<open>pageSize\<close>; \<open>getServices\<close>, called with the
  same arguments, sends both.
\<close>

theorem getPromoCodes_drops_caller_params:
  "fst (getPromoCodes http (IdStr ''HOTEL-1'') (Some [(''pageSize'', JNum 10)]))
     = [\<lparr> path = ''/rateplan/v1/promo-codes/codes'',
          config_params = Some [(''propertyId'', JStr ''HOTEL-1'')] \<rparr>] \<and>
   map (sent_param ''pageSize'')
     (fst (getPromoCodes http (IdStr ''HOTEL-1'') (Some [(''pageSize'', JNum 10)]))) = [None] \<and>
   fst (getServices toConnectedService http' (IdStr ''HOTEL-1'') (Some [(''pageSize'', JNum 10)]))
     = [\<lparr> path = ''/rateplan/v1/services'',
          config_params = Some [(''pageSize'', JNum 10), (''propertyId'', JStr ''HOTEL-1'')] \<rparr>]"
  by (simp add: getPromoCodes_def getServices_def await_get_def sent_param_def)

text \<open>The request and result of \<open>getPromoCodes\<close> do not depend on the bag at all.\<close>

lemma getPromoCodes_ignores_params:
  "getPromoCodes http hotelId p1 = getPromoCodes http hotelId p2"
  by (simp add: getPromoCodes_def)

text \<open>A sibling list method hands on every entry of the bag other than the scoping key.\<close>

lemma sibling_list_methods_forward_caller_entries:
  "k \<noteq> ''propertyId'' \<Longrightarrow>
   map (sent_param k) (fst (getServices toConnectedService http hotelId params))
     = [map_of (default_bag params) k]"
  by (simp add: getServices_def await_get_def sent_param_def update_conv')

section \<open>Promo codes\<close>

text \<open>
  C7. When the vendor answers the promo-code request with a payload, \<open>getPromoCodes\<close>
  returns a result (it does not fail) with one entry per vendor element, in order: the
  entry keeps the element's \<open>code\<close>, its \<open>related_rateplan_ids\<close> are the element's
  \<open>relatedRateplanIds\<close> when the field holds an array, and the empty list when the field
  is missing or \<^verbatim>\<open>null\<close>.
\<close>

theorem getPromoCodes_mapping_total:
  "http \<lparr> path = ''/rateplan/v1/promo-codes/codes'',
          config_params = Some [(''propertyId'', id_val hotelId)] \<rparr> = Inr payload \<Longrightarrow>
   \<exists>r. snd (getPromoCodes http hotelId params) = Inr r \<and>
       count r = IApaleoPromoCodeList.count payload \<and>
       length (data r) = length (promoCodes payload) \<and>
       (\<forall>i < length (promoCodes payload).
          code (data r ! i) = IApaleoPromoCode.code (promoCodes payload ! i) \<and>
          (\<forall>ids. relatedRateplanIds (promoCodes payload ! i) = Value ids \<longrightarrow>
                 related_rateplan_ids (data r ! i) = ids) \<and>
          (relatedRateplanIds (promoCodes payload ! i) = Undefined \<or>
           relatedRateplanIds (promoCodes payload ! i) = Null \<longrightarrow>
             related_rateplan_ids (data r ! i) = []))"
  by (auto simp: getPromoCodes_def await_get_def toPromoCode_def)

theorem getPromoCodes_mapping_total_witness:
  "snd (getPromoCodes (always three_promo_codes) (IdStr ''HOTEL-1'') None)
     = Inr \<lparr> data = [\<lparr> code = ''SUMMER'', related_rateplan_ids = [''RP-1'', ''RP-2''] \<rparr>,
                     \<lparr> code = ''WINTER'', related_rateplan_ids = [] \<rparr>,
                     \<lparr> code = ''SPRING'', related_rateplan_ids = [] \<rparr>],
             count = 3 \<rparr>"
proof -
  have answered:
    "always three_promo_codes
       \<lparr> path = ''/rateplan/v1/promo-codes/codes'',
         config_params = Some [(''propertyId'', id_val (IdStr ''HOTEL-1''))] \<rparr>
     = Inr three_promo_codes"
    by (simp add: always_def)
  from getPromoCodes_mapping_total
    [where http = "always three_promo_codes" and hotelId = "IdStr ''HOTEL-1''"
       and payload = three_promo_codes and params = None, OF answered]
  obtain r where r: "snd (getPromoCodes (always three_promo_codes) (IdStr ''HOTEL-1'') None) = Inr r"
    and c: "count r = IApaleoPromoCodeList.count three_promo_codes"
    and len: "length (data r) = length (promoCodes three_promo_codes)"
    and el: "\<forall>i < length (promoCodes three_promo_codes).
          code (data r ! i) = IApaleoPromoCode.code (promoCodes three_promo_codes ! i) \<and>
          (\<forall>ids. relatedRateplanIds (promoCodes three_promo_codes ! i) = Value ids \<longrightarrow>
                 related_rateplan_ids (data r ! i) = ids) \<and>
          (relatedRateplanIds (promoCodes three_promo_codes ! i) = Undefined \<or>
           relatedRateplanIds (promoCodes three_promo_codes ! i) = Null \<longrightarrow>
             related_rateplan_ids (data r ! i) = [])"
    by blast
  from len obtain a b c' where d: "data r = [a, b, c']"
    by (auto simp: three_promo_codes_def length_Suc_conv)
  from el [rule_format, of 0] el [rule_format, of 1] el [rule_format, of 2] d
  have "a = \<lparr> code = ''SUMMER'', related_rateplan_ids = [''RP-1'', ''RP-2''] \<rparr>"
       "b = \<lparr> code = ''WINTER'', related_rateplan_ids = [] \<rparr>"
       "c' = \<lparr> code = ''SPRING'', related_rateplan_ids = [] \<rparr>"
    by (simp_all add: three_promo_codes_def)
  with r c d show ?thesis
    by (simp add: three_promo_codes_def)
qed

section \<open>Where the canonical entities come from\<close>

text \<open>
  C8, as stated: every entity returned is the output of a mapper, never the vendor's own
  shape, \<open>getAccount\<close> included. \<open>getAccount\<close> applies no mapper: for the vendor body
  below it returns that very body.
\<close>

theorem getAccount_returns_vendor_body_counterexample:
  "getAccount (always vendor_account)
     = ([\<lparr> path = ''/account/v1/accounts/current'', config_params = None \<rparr>],
        Inr [(''code'', JStr ''ACME''), (''name'', JStr ''Acme Hotels'')])"
  by (simp add: getAccount_def await_get_def always_def vendor_account_def)

text \<open>
  The identity is the only function whose output \<open>getAccount\<close> returns on every body.
\<close>

lemma getAccount_consistent_with_identity_only:
  assumes "\<forall>body. snd (getAccount (always body)) = Inr (toConnectedAccount body)"
  shows "toConnectedAccount = (\<lambda>body. body)"
proof
  fix body
  from assms have "snd (getAccount (always body)) = Inr (toConnectedAccount body)" ..
  then show "toConnectedAccount body = body"
    by (simp add: getAccount_def await_get_def always_def)
qed

text \<open>
  C8, amended. \<open>getAccount\<close> returns the driver's answer unchanged. Every other method
  returns the driver's error, or the mapper of its resource applied to the body: once for
  a single entity, to each element in order for a list (with the vendor's count), the
  mapper being the one imported from \<^verbatim>\<open>./utils\<close> or, for promo codes, the function
  \<open>toPromoCode\<close> written inside \<open>getPromoCodes\<close>.
\<close>

theorem entities_come_from_mappers_except_account:
  "snd (getAccount http_account)
     = http_account \<lparr> path = ''/account/v1/accounts/current'', config_params = None \<rparr> \<and>
   snd (getHotels toConnectedHotel http_hotels params)
     = map_sum (\<lambda>e. e)
         (\<lambda>d. \<lparr> data = map toConnectedHotel (properties d),
                count = IApaleoPropertyList.count d \<rparr>)
         (http_hotels \<lparr> path = ''/inventory/v1/properties'',
                        config_params = Some (default_bag params) \<rparr>) \<and>
   snd (getHotelById toConnectedHotel http_hotel ident params)
     = map_sum (\<lambda>e. e) toConnectedHotel
         (http_hotel \<lparr> path = ''/inventory/v1/properties/'' @ id_to_string ident,
                       config_params = Some (default_bag params) \<rparr>) \<and>
   snd (getRoomsTypes toConnectedRoomType http_rooms ident params)
     = map_sum (\<lambda>e. e)
         (\<lambda>d. \<lparr> data = map toConnectedRoomType (unitGroups d),
                count = IApaleoUnitGroupList.count d \<rparr>)
         (http_rooms \<lparr> path = ''/inventory/v1/unit-groups'',
                       config_params = Some (AList.update ''propertyId'' (id_val ident)
                                               (default_bag params)) \<rparr>) \<and>
   snd (getRoomTypeById toConnectedRoomType http_room ident)
     = map_sum (\<lambda>e. e) toConnectedRoomType
         (http_room \<lparr> path = ''/inventory/v1/unit-groups/'' @ id_to_string ident,
                      config_params = None \<rparr>) \<and>
   snd (getRatePlansByHotelId toConnectedRatePaln http_plans ident params)
     = map_sum (\<lambda>e. e)
         (\<lambda>d. \<lparr> data = map toConnectedRatePaln (ratePlans d),
                count = IApaleoRatePlanList.count d \<rparr>)
         (http_plans \<lparr> path = ''/rateplan/v1/rate-plans'',
                       config_params = Some (AList.update ''propertyId'' (id_val ident)
                                               (default_bag params)) \<rparr>) \<and>
   snd (getRatePlanById toConnectedRatePaln http_plan ident params)
     = map_sum (\<lambda>e. e) toConnectedRatePaln
         (http_plan \<lparr> path = ''/rateplan/v1/rate-plans/'' @ id_to_string ident,
                      config_params = params \<rparr>) \<and>
   snd (getRatesByRatePlan convertToConnectedRate http_rates ratePlan params)
     = (case rates_range ratePlan of
          None \<Rightarrow> Inl TypeError
        | Some rr \<Rightarrow>
            map_sum (\<lambda>e. e)
              (\<lambda>d. \<lparr> data = map convertToConnectedRate (rates d),
                     count = IApaleoRateList.count d \<rparr>)
              (http_rates
                 \<lparr> path = ''/rateplan/v1/rate-plans/'' @ id_to_string (rp_id ratePlan) @ ''/rates'',
                   config_params = Some (AList.update ''to'' (range_to rr)
                                           (AList.update ''from'' (range_from rr)
                                              (default_bag params))) \<rparr>)) \<and>
   snd (getCancellationPolicies toConnectedCancellationPolicy http_cancels ident params)
     = map_sum (\<lambda>e. e)
         (\<lambda>d. \<lparr> data = map toConnectedCancellationPolicy (cancellationPolicies d),
                count = IApaleoCancellationPolicyList.count d \<rparr>)
         (http_cancels \<lparr> path = ''/rateplan/v1/cancellation-policies'',
                         config_params = Some (AList.update ''propertyId'' (id_val ident)
                                                 (default_bag params)) \<rparr>) \<and>
   snd (getCancellationPolicyById toConnectedCancellationPolicy http_cancel ident params)
     = map_sum (\<lambda>e. e) toConnectedCancellationPolicy
         (http_cancel \<lparr> path = ''/rateplan/v1/cancellation-policies/'' @ id_to_string ident,
                        config_params = None \<rparr>) \<and>
   snd (getNoShowPolicies toConnectedNoShowPolicy http_noshows ident params)
     = map_sum (\<lambda>e. e)
         (\<lambda>d. \<lparr> data = map toConnectedNoShowPolicy (noShowPolicies d),
                count = IApaleoNoShowPolicyList.count d \<rparr>)
         (http_noshows \<lparr> path = ''/rateplan/v1/no-show-policies'',
                         config_params = Some (AList.update ''propertyId'' (id_val ident)
                                                 (default_bag params)) \<rparr>) \<and>
   snd (getNoShowPolicyById toConnectedNoShowPolicy http_noshow ident params)
     = map_sum (\<lambda>e. e) toConnectedNoShowPolicy
         (http_noshow \<lparr> path = ''/rateplan/v1/no-show-policies/'' @ id_to_string ident,
                        config_params = Some (default_bag params) \<rparr>) \<and>
   snd (getAgeCategories toConnectedAgeCategory http_ages ident params)
     = map_sum (\<lambda>e. e)
         (\<lambda>d. \<lparr> data = map toConnectedAgeCategory (ageCategories d),
                count = IApaleoAgeCategoryList.count d \<rparr>)
         (http_ages \<lparr> path = ''/settings/v1/age-categories'',
                      config_params = Some (AList.update ''propertyId'' (id_val ident)
                                              (spread params)) \<rparr>) \<and>
   snd (getAgeCategoryById toConnectedAgeCategory http_age ident params)
     = map_sum (\<lambda>e. e) toConnectedAgeCategory
         (http_age \<lparr> path = ''/settings/v1/age-categories/'' @ id_to_string ident,
                     config_params = Some (spread params) \<rparr>) \<and>
   snd (getServices toConnectedService http_services ident params)
     = map_sum (\<lambda>e. e)
         (\<lambda>d. \<lparr> data = map toConnectedService (services d),
                count = IApaleoServiceList.count d \<rparr>)
         (http_services \<lparr> path = ''/rateplan/v1/services'',
                          config_params = Some (AList.update ''propertyId'' (id_val ident)
                                                  (default_bag params)) \<rparr>) \<and>
   snd (getServiceById toConnectedService http_service ident params)
     = map_sum (\<lambda>e. e) toConnectedService
         (http_service \<lparr> path = ''/rateplan/v1/services/'' @ id_to_string ident,
                         config_params = None \<rparr>) \<and>
   snd (getPromoCodes http_promos ident params)
     = map_sum (\<lambda>e. e)
         (\<lambda>d. \<lparr> data = map toPromoCode (promoCodes d),
                count = IApaleoPromoCodeList.count d \<rparr>)
         (http_promos \<lparr> path = ''/rateplan/v1/promo-codes/codes'',
                        config_params = Some [(''propertyId'', id_val ident)] \<rparr>)"
  by (simp add: getAccount_def getHotels_def getHotelById_def getRoomsTypes_def
      getRoomTypeById_def getRatePlansByHotelId_def getRatePlanById_def getRatesByRatePlan_def
      getCancellationPolicies_def getCancellationPolicyById_def getNoShowPolicies_def
      getNoShowPolicyById_def getAgeCategories_def getAgeCategoryById_def getServices_def
      getServiceById_def getPromoCodes_def await_get_result map_sum_unchanged
      split: option.split)

section \<open>The scoping parameter\<close>

text \<open>
  C9. Each of the seven list methods that take a hotel or property identifier issues one
  request, and the \<open>propertyId\<close> of that request is the identifier passed, for every
  caller's bag, also one that holds a \<open>propertyId\<close> of its own.
\<close>

theorem scoping_parameter_wins:
  "map (sent_param ''propertyId'')
       (fst (getRoomsTypes toConnectedRoomType http_rooms hotelId params))
     = [Some (id_val hotelId)] \<and>
   map (sent_param ''propertyId'')
       (fst (getRatePlansByHotelId toConnectedRatePaln http_plans hotelId params))
     = [Some (id_val hotelId)] \<and>
   map (sent_param ''propertyId'')
       (fst (getCancellationPolicies toConnectedCancellationPolicy http_cancels hotelId params))
     = [Some (id_val hotelId)] \<and>
   map (sent_param ''propertyId'')
       (fst (getNoShowPolicies toConnectedNoShowPolicy http_noshows hotelId params))
     = [Some (id_val hotelId)] \<and>
   map (sent_param ''propertyId'')
       (fst (getAgeCategories toConnectedAgeCategory http_ages hotelId params))
     = [Some (id_val hotelId)] \<and>
   map (sent_param ''propertyId'')
       (fst (getServices toConnectedService http_services hotelId params))
     = [Some (id_val hotelId)] \<and>
   map (sent_param ''propertyId'') (fst (getPromoCodes http_promos hotelId params))
     = [Some (id_val hotelId)]"
  by (simp add: getRoomsTypes_def getRatePlansByHotelId_def getCancellationPolicies_def
      getNoShowPolicies_def getAgeCategories_def getServices_def getPromoCodes_def
      await_get_def sent_param_def update_conv')

text \<open>A bag with its own \<open>propertyId\<close>: the key keeps its place and takes the argument.\<close>

lemma caller_propertyId_is_overridden:
  "fst (getRoomsTypes toConnectedRoomType http (IdStr ''HOTEL-1'')
          (Some [(''propertyId'', JStr ''OTHER''), (''pageSize'', JNum 10)]))
     = [\<lparr> path = ''/inventory/v1/unit-groups'',
          config_params = Some [(''propertyId'', JStr ''HOTEL-1''), (''pageSize'', JNum 10)] \<rparr>]"
  by (simp add: getRoomsTypes_def await_get_def)

section \<open>Unused bags of two single-entity methods\<close>

text \<open>
  C10. \<open>getServiceById\<close> and \<open>getCancellationPolicyById\<close> do not use their \<open>params\<close>:
  for one identifier and one driver, two calls with any two bags issue the same request,
  which is the path alone without query parameters, and return the same result.
\<close>

theorem by_id_methods_ignore_params:
  "getServiceById toConnectedService http_service serviceId p1
     = getServiceById toConnectedService http_service serviceId p2 \<and>
   fst (getServiceById toConnectedService http_service serviceId p1)
     = [\<lparr> path = ''/rateplan/v1/services/'' @ id_to_string serviceId,
          config_params = None \<rparr>] \<and>
   getCancellationPolicyById toConnectedCancellationPolicy http_cancel cancellationPolicyId p1
     = getCancellationPolicyById toConnectedCancellationPolicy http_cancel cancellationPolicyId p2 \<and>
   fst (getCancellationPolicyById toConnectedCancellationPolicy http_cancel cancellationPolicyId p1)
     = [\<lparr> path = ''/rateplan/v1/cancellation-policies/'' @ id_to_string cancellationPolicyId,
          config_params = None \<rparr>]"
  by (simp add: getServiceById_def getCancellationPolicyById_def await_get_def)

end
